theory Spec2Isabelle
  imports Complex_Main "HOL-Library.Multiset"
begin

section \<open>JavaScript values and strings\<close>

text \<open>
  The values that reach the handlers of \<^verbatim>\<open>server.js\<close>: fields of the parsed form body
  (strings, arrays and objects, or \<open>undefined\<close> for an absent field), fields of the
  session, and the JSON value the upstream image provider returns. A string is a list of
  code units; a \<open>char\<close> stands for a code unit below 256, so strings with code units
  from 256 on are outside this model. JSON numbers are finite, hence a real number
  decides their truthiness.
\<close>

datatype jsval =
    JUndefined
  | JNull
  | JBool bool
  | JNum real
  | JStr string
  | JArr "jsval list"
  | JObj "(string \<times> jsval) list"

datatype js_error =
    TypeError string
  | SyntaxError string
  | Error string
  | StoreError string

text \<open>Truthiness, as \<open>!v\<close> and \<open>a || b\<close> use it.\<close>

fun truthy :: "jsval \<Rightarrow> bool" where
  "truthy JUndefined = False"
| "truthy JNull = False"
| "truthy (JBool b) = b"
| "truthy (JNum r) = (r \<noteq> 0)"
| "truthy (JStr s) = (s \<noteq> [])"
| "truthy (JArr xs) = True"
| "truthy (JObj kvs) = True"

definition js_or :: "jsval \<Rightarrow> jsval \<Rightarrow> jsval" where
  "js_or a b = (if truthy a then a else b)"

text \<open>\<open>req.body.k\<close>: an own property of the body object, \<open>undefined\<close> when absent.\<close>

definition field :: "(string \<times> jsval) list \<Rightarrow> string \<Rightarrow> jsval" where
  "field body k = (case map_of body k of None \<Rightarrow> JUndefined | Some v \<Rightarrow> v)"

text \<open>
  \<open>v.k\<close> on an arbitrary value: reading a property of \<open>null\<close> or \<open>undefined\<close>
  throws a TypeError; primitives and arrays have no property of the names used here.
\<close>

fun js_get :: "jsval \<Rightarrow> string \<Rightarrow> js_error + jsval" where
  "js_get JUndefined k = Inl (TypeError ''Cannot read properties of undefined'')"
| "js_get JNull k = Inl (TypeError ''Cannot read properties of null'')"
| "js_get (JObj kvs) k = Inr (field kvs k)"
| "js_get v k = Inr JUndefined"

text \<open>
  The values the url-encoded body parser (extended mode) puts into a field: a string, an
  array or an object; \<open>JUndefined\<close> is the absent field.
\<close>

fun is_form_value :: "jsval \<Rightarrow> bool" where
  "is_form_value JUndefined = True"
| "is_form_value (JStr s) = True"
| "is_form_value (JArr xs) = True"
| "is_form_value (JObj kvs) = True"
| "is_form_value v = False"

text \<open>
  \<open>String.prototype.trim\<close> removes white space and line terminators at both ends; below
  256 these are TAB, LF, VT, FF, CR, SPACE and NO-BREAK SPACE.
\<close>

definition isWhiteSpace :: "char \<Rightarrow> bool" where
  "isWhiteSpace c =
     (let n = (of_char c :: nat)
      in n = 9 \<or> n = 10 \<or> n = 11 \<or> n = 12 \<or> n = 13 \<or> n = 32 \<or> n = 160)"

definition trim :: "string \<Rightarrow> string" where
  "trim s = rev (dropWhile isWhiteSpace (rev (dropWhile isWhiteSpace s)))"

text \<open>
  \<open>String.prototype.toLowerCase\<close> below 256: A-Z and the Latin-1 capitals
  (C0-DE but the multiplication sign D7) move up by 32.
\<close>

definition lowerChar :: "char \<Rightarrow> char" where
  "lowerChar c =
     (let n = (of_char c :: nat)
      in if (65 \<le> n \<and> n \<le> 90) \<or> (192 \<le> n \<and> n \<le> 222 \<and> n \<noteq> 215)
         then char_of (n + 32) else c)"

definition toLowerCase :: "string \<Rightarrow> string" where
  "toLowerCase s = map lowerChar s"

text \<open>
  \<open>v.trim()\<close>: only a string has the method; on an array, an object, a number or
  \<open>true\<close> the call throws a TypeError.
\<close>

fun js_trim :: "jsval \<Rightarrow> js_error + string" where
  "js_trim (JStr s) = Inr (trim s)"
| "js_trim v = Inl (TypeError ''trim is not a function'')"

section \<open>Data model\<close>

text \<open>
  The two Mongoose schemas (lines 32-41) and the session fields the handlers use. An
  ObjectId is identified with its hexadecimal rendering, so \<open>_id.toString()\<close> and the
  cast of a session id back to an ObjectId are the identity. Dates are milliseconds.
\<close>

type_synonym objectid = string

record user_doc =
  user_id :: objectid
  username :: string
  createdAt :: int

record image_doc =
  image_id :: objectid
  image_user :: objectid
  imageUrl :: string
  savedAt :: int

record store =
  users :: "user_doc list"
  images :: "image_doc list"

record session_user =
  su_id :: string
  su_username :: string

record session =
  user :: "session_user option"
  currentImage :: jsval

definition new_session :: session where
  "new_session = \<lparr>user = None, currentImage = JUndefined\<rparr>"

section \<open>Environment of one request\<close>

text \<open>
  What the libraries and the outside world contribute to one request: the clock, the
  ObjectId generated for a new document, a failure injected into each store operation
  (a lost connection, a timeout), the answer of the upstream provider, and Mongoose's
  cast of a non-string value to the schema type String (library code, taken as a
  parameter).
\<close>

datatype body_text = NotJson | Json jsval

datatype upstream = NetworkFailure | Response nat body_text

record env =
  now :: int
  new_id :: objectid
  userFindOne_err :: "js_error option"
  userCreate_err :: "js_error option"
  imageCreate_err :: "js_error option"
  imageFind_err :: "js_error option"
  fetched :: upstream
  cast_nonstring :: "jsval \<Rightarrow> string option"

text \<open>\<open>response.ok\<close> of the fetch API: a status from 200 to 299.\<close>

definition response_ok :: "nat \<Rightarrow> bool" where
  "response_ok st = (200 \<le> st \<and> st \<le> 299)"

section \<open>Store operations\<close>

text \<open>
  The Mongoose calls of the handlers on the store above. \<open>findOne\<close> with a string is an
  exact match; \<open>create\<close> validates \<open>required\<close> (a non-empty string), respects the unique
  index on \<open>username\<close>, fills the defaults and appends the document; \<open>find\<close> with
  \<open>sort({savedAt: -1})\<close> returns the matching documents by descending \<open>savedAt\<close> (the
  order of equal dates is the store's choice; here insertion order).
\<close>

definition User_findOne :: "env \<Rightarrow> store \<Rightarrow> string \<Rightarrow> js_error + user_doc option" where
  "User_findOne e st name =
     (case userFindOne_err e of
        Some err \<Rightarrow> Inl err
      | None \<Rightarrow> Inr (find (\<lambda>u. username u = name) (users st)))"

definition User_create :: "env \<Rightarrow> store \<Rightarrow> string \<Rightarrow> js_error + user_doc \<times> store" where
  "User_create e st name =
     (case userCreate_err e of
        Some err \<Rightarrow> Inl err
      | None \<Rightarrow>
          if name = [] then Inl (StoreError ''ValidationError: username is required'')
          else if find (\<lambda>u. username u = name) (users st) \<noteq> None
            then Inl (StoreError ''E11000 duplicate key'')
          else
            let d = \<lparr>user_id = new_id e, username = name, createdAt = now e\<rparr>
            in Inr (d, st\<lparr>users := users st @ [d]\<rparr>))"

definition castString :: "env \<Rightarrow> jsval \<Rightarrow> js_error + string" where
  "castString e v =
     (case v of
        JStr s \<Rightarrow> Inr s
      | _ \<Rightarrow> (case cast_nonstring e v of
                None \<Rightarrow> Inl (StoreError ''CastError: imageUrl'')
              | Some s \<Rightarrow> Inr s))"

definition Image_create :: "env \<Rightarrow> store \<Rightarrow> objectid \<Rightarrow> jsval \<Rightarrow> js_error + store" where
  "Image_create e st uid v =
     (case imageCreate_err e of
        Some err \<Rightarrow> Inl err
      | None \<Rightarrow>
          (case castString e v of
             Inl err \<Rightarrow> Inl err
           | Inr url \<Rightarrow>
               if url = [] then Inl (StoreError ''ValidationError: imageUrl is required'')
               else Inr (st\<lparr>images := images st @
                      [\<lparr>image_id = new_id e, image_user = uid, imageUrl = url,
                        savedAt = now e\<rparr>]\<rparr>)))"

definition Image_find_sorted :: "env \<Rightarrow> store \<Rightarrow> objectid \<Rightarrow> js_error + image_doc list" where
  "Image_find_sorted e st uid =
     (case imageFind_err e of
        Some err \<Rightarrow> Inl err
      | None \<Rightarrow>
          Inr (sort_key (\<lambda>d. - savedAt d) (filter (\<lambda>d. image_user d = uid) (images st))))"

section \<open>Responses and effects\<close>

text \<open>
  What a handler does to the response object: \<open>res.redirect(p)\<close> (status 302),
  \<open>res.render(view, locals)\<close> (status 200), or nothing when the promise of an async
  handler rejects outside its \<open>try\<close> block. \<open>RenderHome v None\<close> is a render without the
  \<open>error\<close> key. The templates themselves are not part of the model.
\<close>

datatype response =
    Redirect string
  | RenderLogin "string option"
  | RenderHome jsval "string option"
  | RenderSaved "image_doc list"
  | NotFound
  | Rejected js_error

fun status :: "response \<Rightarrow> nat option" where
  "status (Redirect p) = Some 302"
| "status (RenderLogin err) = Some 200"
| "status (RenderHome img err) = Some 200"
| "status (RenderSaved imgs) = Some 200"
| "status NotFound = Some 404"
| "status (Rejected err) = None"

text \<open>The calls a handler makes to its collaborators, in the order it makes them.\<close>

datatype effect =
    UserFindOne string
  | UserCreate string
  | ImageCreate objectid jsval
  | ImageFind objectid
  | Fetch string
  | SessionDestroy
  | ConsoleError string js_error

record outcome =
  resp :: response
  sess :: session
  db :: store
  trace :: "effect list"

section \<open>Routes\<close>

text \<open>
  The model starts where the router receives a request: the body is parsed and the
  session is loaded. A handler maps the session and the store before the request to an
  outcome: the response, the session and the store after it, and the calls made. One
  request runs without another one interleaved.
\<close>

subsection \<open>Login and logout (lines 72-114)\<close>

definition get_root :: "session \<Rightarrow> store \<Rightarrow> outcome" where
  "get_root s st = \<lparr>resp = Redirect ''/login'', sess = s, db = st, trace = []\<rparr>"

definition get_login :: "session \<Rightarrow> store \<Rightarrow> outcome" where
  "get_login s st = \<lparr>resp = RenderLogin None, sess = s, db = st, trace = []\<rparr>"

text \<open>The body of the \<open>try\<close> block of POST /login; \<open>Inl\<close> is a throw, with the calls made so far.\<close>

definition login_try ::
  "env \<Rightarrow> string \<Rightarrow> session \<Rightarrow> store \<Rightarrow> js_error \<times> effect list + outcome" where
  "login_try e name s st =
     (case User_findOne e st name of
        Inl err \<Rightarrow> Inl (err, [UserFindOne name])
      | Inr (Some u) \<Rightarrow>
          Inr \<lparr>resp = Redirect ''/home'',
               sess = s\<lparr>user := Some \<lparr>su_id = user_id u, su_username = username u\<rparr>\<rparr>,
               db = st, trace = [UserFindOne name]\<rparr>
      | Inr None \<Rightarrow>
          (case User_create e st name of
             Inl err \<Rightarrow> Inl (err, [UserFindOne name, UserCreate name])
           | Inr (u, st') \<Rightarrow>
               Inr \<lparr>resp = Redirect ''/home'',
                    sess = s\<lparr>user := Some \<lparr>su_id = user_id u, su_username = username u\<rparr>\<rparr>,
                    db = st', trace = [UserFindOne name, UserCreate name]\<rparr>))"

definition post_login :: "env \<Rightarrow> (string \<times> jsval) list \<Rightarrow> session \<Rightarrow> store \<Rightarrow> outcome" where
  "post_login e body s st =
     (case js_trim (js_or (field body ''username'') (JStr [])) of
        Inl err \<Rightarrow> \<lparr>resp = Rejected err, sess = s, db = st, trace = []\<rparr>
      | Inr name \<Rightarrow>
          if name = [] then
            \<lparr>resp = RenderLogin (Some ''Username is required.''), sess = s, db = st,
             trace = []\<rparr>
          else
            (case login_try e name s st of
               Inr out \<Rightarrow> out
             | Inl (err, tr) \<Rightarrow>
                 \<lparr>resp = RenderLogin (Some ''Something went wrong. Try again.''),
                  sess = s, db = st,
                  trace = tr @ [ConsoleError ''Error in /login:'' err]\<rparr>))"

definition post_logout :: "session \<Rightarrow> store \<Rightarrow> outcome" where
  "post_logout s st =
     \<lparr>resp = Redirect ''/login'', sess = new_session, db = st, trace = [SessionDestroy]\<rparr>"

subsection \<open>The login gate (lines 119-124)\<close>

definition requireLogin ::
  "(session \<Rightarrow> store \<Rightarrow> outcome) \<Rightarrow> session \<Rightarrow> store \<Rightarrow> outcome" where
  "requireLogin next s st =
     (if user s = None
      then \<lparr>resp = Redirect ''/login'', sess = s, db = st, trace = []\<rparr>
      else next s st)"

subsection \<open>Home and random image (lines 127-158)\<close>

definition home_handler :: "session \<Rightarrow> store \<Rightarrow> outcome" where
  "home_handler s st =
     \<lparr>resp = RenderHome (js_or (currentImage s) JNull) None, sess = s, db = st, trace = []\<rparr>"

definition dog_api :: string where
  "dog_api = ''https://dog.ceo/api/breeds/image/random''"

definition random_try :: "env \<Rightarrow> session \<Rightarrow> store \<Rightarrow> js_error + outcome" where
  "random_try e s st =
     (case fetched e of
        NetworkFailure \<Rightarrow> Inl (TypeError ''fetch failed'')
      | Response code body \<Rightarrow>
          if \<not> response_ok code then Inl (Error ''Dog API returned non-OK status'')
          else
            (case body of
               NotJson \<Rightarrow> Inl (SyntaxError ''Unexpected token'')
             | Json data \<Rightarrow>
                 (case js_get data ''message'' of
                    Inl err \<Rightarrow> Inl err
                  | Inr url \<Rightarrow>
                      Inr \<lparr>resp = RenderHome url None, sess = s\<lparr>currentImage := url\<rparr>,
                           db = st, trace = [Fetch dog_api]\<rparr>)))"

definition random_handler :: "env \<Rightarrow> session \<Rightarrow> store \<Rightarrow> outcome" where
  "random_handler e s st =
     (case random_try e s st of
        Inr out \<Rightarrow> out
      | Inl err \<Rightarrow>
          \<lparr>resp = RenderHome JNull (Some ''Could not load image. Please try again.''),
           sess = s, db = st,
           trace = [Fetch dog_api, ConsoleError ''Error fetching random image:'' err]\<rparr>)"

subsection \<open>Save and saved images (lines 161-193)\<close>

text \<open>
  Inside both \<open>try\<close> blocks \<open>req.session.user.id\<close> throws a TypeError when the session has
  no user; behind the gate that does not happen, and the handler's \<open>catch\<close> takes it.
\<close>

definition save_handler ::
  "env \<Rightarrow> (string \<times> jsval) list \<Rightarrow> session \<Rightarrow> store \<Rightarrow> outcome" where
  "save_handler e body s st =
     (let url = js_or (field body ''imageUrl'') (currentImage s) in
      if \<not> truthy url then \<lparr>resp = Redirect ''/home'', sess = s, db = st, trace = []\<rparr>
      else
        (case user s of
           None \<Rightarrow>
             \<lparr>resp = Redirect ''/home'', sess = s, db = st,
              trace = [ConsoleError ''Error saving image:''
                         (TypeError ''Cannot read properties of undefined'')]\<rparr>
         | Some u \<Rightarrow>
             (case Image_create e st (su_id u) url of
                Inr st' \<Rightarrow>
                  \<lparr>resp = Redirect ''/saved'', sess = s, db = st',
                   trace = [ImageCreate (su_id u) url]\<rparr>
              | Inl err \<Rightarrow>
                  \<lparr>resp = Redirect ''/home'', sess = s, db = st,
                   trace = [ImageCreate (su_id u) url,
                            ConsoleError ''Error saving image:'' err]\<rparr>)))"

definition saved_handler :: "env \<Rightarrow> session \<Rightarrow> store \<Rightarrow> outcome" where
  "saved_handler e s st =
     (case user s of
        None \<Rightarrow>
          \<lparr>resp = RenderSaved [], sess = s, db = st,
           trace = [ConsoleError ''Error loading saved images:''
                      (TypeError ''Cannot read properties of undefined'')]\<rparr>
      | Some u \<Rightarrow>
          (case Image_find_sorted e st (su_id u) of
             Inr imgs \<Rightarrow>
               \<lparr>resp = RenderSaved imgs, sess = s, db = st, trace = [ImageFind (su_id u)]\<rparr>
           | Inl err \<Rightarrow>
               \<lparr>resp = RenderSaved [], sess = s, db = st,
                trace = [ImageFind (su_id u),
                         ConsoleError ''Error loading saved images:'' err]\<rparr>))"

subsection \<open>The router (lines 70-196)\<close>

text \<open>
  \<open>express.Router()\<close> matches a path without regard to the case of A-Z and accepts one
  trailing slash; a route registered with \<open>router.get\<close> also answers HEAD.
\<close>

datatype http_method = GET | HEAD | POST | OtherMethod

record request =
  meth :: http_method
  path :: string
  body :: "(string \<times> jsval) list"

definition asciiLower :: "char \<Rightarrow> char" where
  "asciiLower c =
     (let n = (of_char c :: nat) in if 65 \<le> n \<and> n \<le> 90 then char_of (n + 32) else c)"

definition route_match :: "string \<Rightarrow> string \<Rightarrow> bool" where
  "route_match pat p =
     (let q = map asciiLower p in q = pat \<or> (pat \<noteq> ''/'' \<and> q = pat @ ''/''))"

definition is_get :: "request \<Rightarrow> bool" where
  "is_get req = (meth req = GET \<or> meth req = HEAD)"

definition router :: "env \<Rightarrow> request \<Rightarrow> session \<Rightarrow> store \<Rightarrow> outcome" where
  "router e req s st =
     (if is_get req \<and> route_match ''/'' (path req) then get_root s st
      else if is_get req \<and> route_match ''/login'' (path req) then get_login s st
      else if meth req = POST \<and> route_match ''/login'' (path req)
        then post_login e (body req) s st
      else if meth req = POST \<and> route_match ''/logout'' (path req) then post_logout s st
      else if is_get req \<and> route_match ''/home'' (path req)
        then requireLogin home_handler s st
      else if is_get req \<and> route_match ''/random'' (path req)
        then requireLogin (random_handler e) s st
      else if meth req = POST \<and> route_match ''/save'' (path req)
        then requireLogin (save_handler e (body req)) s st
      else if is_get req \<and> route_match ''/saved'' (path req)
        then requireLogin (saved_handler e) s st
      else \<lparr>resp = NotFound, sess = s, db = st, trace = []\<rparr>)"

section \<open>The command line of the process (lines 199-227)\<close>

text \<open>
  The process as far as the stop command sees it: the readline interface, the HTTP
  listener, the store connection, the exit code once the process has exited, and what
  happened, in order. \<open>server.close(cb)\<close> stops the listener and calls \<open>cb\<close> once it has
  closed, so the callback is the continuation of the operation.

  What \<open>mongoose.connection.close(false, cb)\<close> does with \<open>cb\<close> depends on the Mongoose
  release, which the source does not fix, so it is a parameter. Up to Mongoose 6 the
  connection is closed and \<open>cb\<close> is called. From Mongoose 7 on a callback is refused:
  the call returns a rejected promise, the connection stays open, \<open>cb\<close> is never called,
  and the unhandled rejection ends the process with code 1 (the source uses the global
  \<open>fetch\<close>, so Node is 18 or later, where that is the default).
\<close>

datatype mongoose_close = CallsBack | RefusesCallback

datatype event =
    ConsoleLog string
  | Prompted
  | ReadlineClosed
  | ListenerClosed
  | ConnectionClosed bool
  | UnhandledRejection string
  | Exited int

record process =
  rl_open :: bool
  listening :: bool
  db_connected :: bool
  exit_code :: "int option"
  events :: "event list"

definition console_log :: "string \<Rightarrow> process \<Rightarrow> process" where
  "console_log msg p = p\<lparr>events := events p @ [ConsoleLog msg]\<rparr>"

definition rl_prompt :: "process \<Rightarrow> process" where
  "rl_prompt p = p\<lparr>events := events p @ [Prompted]\<rparr>"

definition rl_close :: "process \<Rightarrow> process" where
  "rl_close p = p\<lparr>rl_open := False, events := events p @ [ReadlineClosed]\<rparr>"

definition server_close :: "(process \<Rightarrow> process) \<Rightarrow> process \<Rightarrow> process" where
  "server_close cb p = cb (p\<lparr>listening := False, events := events p @ [ListenerClosed]\<rparr>)"

definition connection_close ::
  "mongoose_close \<Rightarrow> bool \<Rightarrow> (process \<Rightarrow> process) \<Rightarrow> process \<Rightarrow> process" where
  "connection_close lib force cb p =
     (case lib of
        CallsBack \<Rightarrow>
          cb (p\<lparr>db_connected := False, events := events p @ [ConnectionClosed force]\<rparr>)
      | RefusesCallback \<Rightarrow>
          p\<lparr>exit_code := Some 1,
            events := events p @
              [UnhandledRejection
                 ''Connection.prototype.close() no longer accepts a callback'',
               Exited 1]\<rparr>)"

definition process_exit :: "int \<Rightarrow> process \<Rightarrow> process" where
  "process_exit code p = p\<lparr>exit_code := Some code, events := events p @ [Exited code]\<rparr>"

text \<open>The listener of the \<open>line\<close> event; \<open>String(line || "")\<close> of a string is the string.\<close>

definition on_line :: "mongoose_close \<Rightarrow> string \<Rightarrow> process \<Rightarrow> process" where
  "on_line lib line p =
     (let cmd = toLowerCase (trim line) in
      if cmd = ''stop'' then
        server_close (connection_close lib False (process_exit 0))
          (rl_close (console_log ''Shutting down the server'' p))
      else if length cmd > 0 then
        rl_prompt (console_log (''Invalid command: '' @ cmd) p)
      else rl_prompt p)"

definition running :: process where
  "running = \<lparr>rl_open = True, listening = True, db_connected = True, exit_code = None,
              events = [Prompted]\<rparr>"

section \<open>The protected routes\<close>

text \<open>
  The four routes registered with \<open>requireLogin\<close> in front of their handler (lines 127,
  135, 161 and 182), each with the handler it guards.
\<close>

definition protected_handler ::
  "env \<Rightarrow> request \<Rightarrow> (session \<Rightarrow> store \<Rightarrow> outcome) option" where
  "protected_handler e req =
     (if is_get req \<and> route_match ''/home'' (path req) then Some home_handler
      else if is_get req \<and> route_match ''/random'' (path req) then Some (random_handler e)
      else if meth req = POST \<and> route_match ''/save'' (path req)
        then Some (save_handler e (body req))
      else if is_get req \<and> route_match ''/saved'' (path req) then Some (saved_handler e)
      else None)"

section \<open>Sample data\<close>

definition env0 :: env where
  "env0 = \<lparr>now = 1000, new_id = ''65a1'', userFindOne_err = None, userCreate_err = None,
            imageCreate_err = None, imageFind_err = None,
            fetched = Response 200 (Json (JObj [(''message'', JStr ''https://x/a.jpg''),
                                               (''status'', JStr ''success'')])),
            cast_nonstring = (\<lambda>v. None)\<rparr>"

definition store0 :: store where
  "store0 = \<lparr>users = [], images = []\<rparr>"

definition bob :: session_user where
  "bob = \<lparr>su_id = ''65b0'', su_username = ''bob''\<rparr>"

definition bob_session :: session where
  "bob_session = \<lparr>user = Some bob, currentImage = JStr ''https://x/old.jpg''\<rparr>"

definition pic :: "string \<Rightarrow> string \<Rightarrow> int \<Rightarrow> image_doc" where
  "pic owner url t = \<lparr>image_id = url, image_user = owner, imageUrl = url, savedAt = t\<rparr>"

definition store1 :: store where
  "store1 = \<lparr>users = [\<lparr>user_id = ''65b0'', username = ''bob'', createdAt = 5\<rparr>],
              images = [pic ''65b0'' ''u2'' 20, pic ''65a1'' ''v'' 25, pic ''65b0'' ''u1'' 10,
                        pic ''65b0'' ''u3'' 30]\<rparr>"

section \<open>Routing\<close>

lemma route_match_home:
  assumes "route_match ''/home'' p"
  shows "\<not> route_match ''/'' p" "\<not> route_match ''/login'' p" "\<not> route_match ''/logout'' p"
  using assms by (auto simp: route_match_def Let_def)

lemma route_match_random:
  assumes "route_match ''/random'' p"
  shows "\<not> route_match ''/'' p" "\<not> route_match ''/login'' p" "\<not> route_match ''/logout'' p"
    "\<not> route_match ''/home'' p"
  using assms by (auto simp: route_match_def Let_def)

lemma route_match_save:
  assumes "route_match ''/save'' p"
  shows "\<not> route_match ''/'' p" "\<not> route_match ''/login'' p" "\<not> route_match ''/logout'' p"
    "\<not> route_match ''/home'' p" "\<not> route_match ''/random'' p"
  using assms by (auto simp: route_match_def Let_def)

lemma route_match_saved:
  assumes "route_match ''/saved'' p"
  shows "\<not> route_match ''/'' p" "\<not> route_match ''/login'' p" "\<not> route_match ''/logout'' p"
    "\<not> route_match ''/home'' p" "\<not> route_match ''/random'' p" "\<not> route_match ''/save'' p"
  using assms by (auto simp: route_match_def Let_def)

lemma router_home:
  "is_get req \<Longrightarrow> route_match ''/home'' (path req) \<Longrightarrow>
   router e req s st = requireLogin home_handler s st"
  by (simp add: router_def route_match_home)

lemma router_random:
  "is_get req \<Longrightarrow> route_match ''/random'' (path req) \<Longrightarrow>
   router e req s st = requireLogin (random_handler e) s st"
  by (simp add: router_def route_match_random)

lemma router_save:
  "meth req = POST \<Longrightarrow> route_match ''/save'' (path req) \<Longrightarrow>
   router e req s st = requireLogin (save_handler e (body req)) s st"
  by (simp add: router_def is_get_def route_match_save)

lemma router_saved:
  "is_get req \<Longrightarrow> route_match ''/saved'' (path req) \<Longrightarrow>
   router e req s st = requireLogin (saved_handler e) s st"
  by (simp add: router_def route_match_saved)

lemma router_protected:
  "protected_handler e req = Some h \<Longrightarrow> router e req s st = requireLogin h s st"
  unfolding protected_handler_def
  by (auto simp: router_home router_random router_save router_saved split: if_splits)

lemma requireLogin_none:
  "user s = None \<Longrightarrow>
   requireLogin h s st = \<lparr>resp = Redirect ''/login'', sess = s, db = st, trace = []\<rparr>"
  by (simp add: requireLogin_def)

lemma requireLogin_some: "user s \<noteq> None \<Longrightarrow> requireLogin h s st = h s st"
  by (auto simp: requireLogin_def)

lemma match_Random: "route_match ''/random'' ''/Random/''"
  by code_simp

lemma match_home: "route_match ''/home'' ''/home''"
  by code_simp

lemma match_save: "route_match ''/save'' ''/save''"
  by code_simp

lemma match_saved: "route_match ''/saved'' ''/saved''"
  by code_simp

text \<open>
  C1. On each of the four protected routes, a session without a user gets the redirect
  to /login (status 302) whatever the handler behind the gate is, with session and store
  untouched and no call made, so the handler has not run; a session with a user gets
  exactly the outcome of the route's handler, and the gate adds no redirect of its own.
\<close>

theorem login_gate:
  assumes "protected_handler e req = Some h"
  shows "(user s = None \<longrightarrow>
            router e req s st = \<lparr>resp = Redirect ''/login'', sess = s, db = st, trace = []\<rparr> \<and>
            status (resp (router e req s st)) = Some 302 \<and>
            (\<forall>k. requireLogin k s st = router e req s st)) \<and>
         (user s \<noteq> None \<longrightarrow>
            router e req s st = h s st \<and> (\<forall>k. requireLogin k s st = k s st))"
proof (intro conjI impI allI)
  assume n: "user s = None"
  show r: "router e req s st = \<lparr>resp = Redirect ''/login'', sess = s, db = st, trace = []\<rparr>"
    by (simp add: router_protected [OF assms] requireLogin_none [OF n])
  show "status (resp (router e req s st)) = Some 302"
    by (simp add: r)
  show "requireLogin k s st = router e req s st" for k
    by (simp add: r requireLogin_none [OF n])
next
  assume u: "user s \<noteq> None"
  show "router e req s st = h s st"
    by (simp add: router_protected [OF assms] requireLogin_some [OF u])
  show "requireLogin k s st = k s st" for k
    by (rule requireLogin_some [OF u])
qed

theorem login_gate_witness:
  "protected_handler env0 \<lparr>meth = GET, path = ''/Random/'', body = []\<rparr>
     = Some (random_handler env0) \<and>
   router env0 \<lparr>meth = GET, path = ''/Random/'', body = []\<rparr> new_session store0
     = \<lparr>resp = Redirect ''/login'', sess = new_session, db = store0, trace = []\<rparr> \<and>
   router env0 \<lparr>meth = GET, path = ''/Random/'', body = []\<rparr> bob_session store0
     = random_handler env0 bob_session store0"
proof -
  have p: "protected_handler env0 \<lparr>meth = GET, path = ''/Random/'', body = []\<rparr>
             = Some (random_handler env0)"
    by (simp add: protected_handler_def is_get_def match_Random route_match_random)
  show ?thesis
    using login_gate [OF p, of new_session store0] login_gate [OF p, of bob_session store0]
    by (simp add: p new_session_def bob_session_def)
qed

section \<open>Login\<close>

lemma trim_Nil: "trim [] = []"
  by (simp add: trim_def)

lemma username_given:
  assumes "field form ''username'' = JStr raw" and "trim raw \<noteq> []"
  shows "js_trim (js_or (field form ''username'') (JStr [])) = Inr (trim raw)"
proof -
  from assms(2) have "raw \<noteq> []" by (auto simp: trim_Nil)
  with assms(1) show ?thesis by (simp add: js_or_def)
qed

lemma username_missing:
  assumes "field form ''username'' = JUndefined \<or>
           (\<exists>raw. field form ''username'' = JStr raw \<and> trim raw = [])"
  shows "js_trim (js_or (field form ''username'') (JStr [])) = Inr []"
  using assms by (auto simp: js_or_def trim_Nil)

lemma find_snoc:
  "find P xs = None \<Longrightarrow> P d \<Longrightarrow> find P (xs @ [d]) = Some d"
  by (induction xs) (auto split: if_splits)

lemma login_try_found:
  assumes "userFindOne_err e = None" and "find (\<lambda>u. username u = name) (users st) = Some u"
  shows "login_try e name s st =
           Inr \<lparr>resp = Redirect ''/home'',
                sess = s\<lparr>user := Some \<lparr>su_id = user_id u, su_username = name\<rparr>\<rparr>,
                db = st, trace = [UserFindOne name]\<rparr>"
proof -
  from assms(2) have "username u = name"
    by (auto simp: find_Some_iff)
  with assms show ?thesis
    by (simp add: login_try_def User_findOne_def)
qed

lemma login_try_absent:
  assumes "userFindOne_err e = None" and "userCreate_err e = None" and "name \<noteq> []"
    and "find (\<lambda>u. username u = name) (users st) = None"
  shows "login_try e name s st =
           Inr \<lparr>resp = Redirect ''/home'',
                sess = s\<lparr>user := Some \<lparr>su_id = new_id e, su_username = name\<rparr>\<rparr>,
                db = st\<lparr>users := users st @
                       [\<lparr>user_id = new_id e, username = name, createdAt = now e\<rparr>]\<rparr>,
                trace = [UserFindOne name, UserCreate name]\<rparr>"
  using assms by (simp add: login_try_def User_findOne_def User_create_def Let_def)

lemma post_login_try:
  assumes "field form ''username'' = JStr raw" and "trim raw \<noteq> []"
    and "login_try e (trim raw) s st = Inr out"
  shows "post_login e form s st = out"
  using assms(2,3) by (simp add: post_login_def username_given [OF assms(1,2)])

lemma post_login_catch:
  assumes "field form ''username'' = JStr raw" and "trim raw \<noteq> []"
    and "login_try e (trim raw) s st = Inl (err, tr)"
  shows "post_login e form s st =
           \<lparr>resp = RenderLogin (Some ''Something went wrong. Try again.''), sess = s, db = st,
            trace = tr @ [ConsoleError ''Error in /login:'' err]\<rparr>"
  using assms(2,3) by (simp add: post_login_def username_given [OF assms(1,2)])

lemma login_try_throws:
  assumes "userFindOne_err e = Some err \<or>
           (userFindOne_err e = None \<and> find (\<lambda>u. username u = name) (users st) = None \<and>
            userCreate_err e = Some err)"
  shows "\<exists>tr. login_try e name s st = Inl (err, tr)"
  using assms by (auto simp: login_try_def User_findOne_def User_create_def)

lemma trim_alice: "trim ''  alice '' = ''alice''"
  by code_simp

lemma trim_alice_plain: "trim ''alice'' = ''alice''"
  by code_simp

lemma trim_blank: "trim ''   '' = []"
  by code_simp

text \<open>
  C2. POST /login with a username that is non-empty after trimming, the store answering
  without error: the handler looks the trimmed name up by exact match and creates a User
  only when the lookup finds none. A first login (no such user yet) appends exactly one
  User record; a second login with the same trimmed name changes nothing in the store.
  Both logins put the id and the name of the one stored user into the session and
  answer with the redirect (302) to /home.
\<close>

theorem login_idempotent_identity:
  assumes "field form ''username'' = JStr raw" and "trim raw \<noteq> []"
    and "field form2 ''username'' = JStr raw2" and "trim raw2 = trim raw"
    and "userFindOne_err e = None" and "userCreate_err e = None"
    and "userFindOne_err e2 = None" and "userCreate_err e2 = None"
  shows "(find (\<lambda>u. username u = trim raw) (users st) = None \<longrightarrow>
            db (post_login e form s st) =
              st\<lparr>users := users st @
                   [\<lparr>user_id = new_id e, username = trim raw, createdAt = now e\<rparr>]\<rparr> \<and>
            trace (post_login e form s st) = [UserFindOne (trim raw), UserCreate (trim raw)]) \<and>
         (find (\<lambda>u. username u = trim raw) (users st) \<noteq> None \<longrightarrow>
            db (post_login e form s st) = st \<and>
            trace (post_login e form s st) = [UserFindOne (trim raw)]) \<and>
         db (post_login e2 form2 (sess (post_login e form s st)) (db (post_login e form s st)))
           = db (post_login e form s st) \<and>
         (\<exists>u. find (\<lambda>u. username u = trim raw) (users (db (post_login e form s st))) = Some u \<and>
              sess (post_login e form s st) =
                s\<lparr>user := Some \<lparr>su_id = user_id u, su_username = trim raw\<rparr>\<rparr> \<and>
              sess (post_login e2 form2 (sess (post_login e form s st))
                     (db (post_login e form s st))) =
                s\<lparr>user := Some \<lparr>su_id = user_id u, su_username = trim raw\<rparr>\<rparr>) \<and>
         resp (post_login e form s st) = Redirect ''/home'' \<and>
         status (resp (post_login e form s st)) = Some 302 \<and>
         resp (post_login e2 form2 (sess (post_login e form s st))
                (db (post_login e form s st))) = Redirect ''/home''"
proof -
  define name where "name = trim raw"
  define o1 where "o1 = post_login e form s st"
  have name: "name \<noteq> []" "trim raw = name" "trim raw2 = name"
    using assms(2,4) by (simp_all add: name_def)
  have first: "\<exists>u. find (\<lambda>u. username u = name) (users (db o1)) = Some u \<and>
                 o1 = \<lparr>resp = Redirect ''/home'',
                       sess = s\<lparr>user := Some \<lparr>su_id = user_id u, su_username = name\<rparr>\<rparr>,
                       db = db o1,
                       trace = (if find (\<lambda>u. username u = name) (users st) = None
                                then [UserFindOne name, UserCreate name]
                                else [UserFindOne name])\<rparr> \<and>
                 db o1 = (if find (\<lambda>u. username u = name) (users st) = None
                          then st\<lparr>users := users st @
                                 [\<lparr>user_id = new_id e, username = name, createdAt = now e\<rparr>]\<rparr>
                          else st)"
  proof (cases "find (\<lambda>u. username u = name) (users st)")
    case None
    have "o1 = \<lparr>resp = Redirect ''/home'',
                sess = s\<lparr>user := Some \<lparr>su_id = new_id e, su_username = name\<rparr>\<rparr>,
                db = st\<lparr>users := users st @
                       [\<lparr>user_id = new_id e, username = name, createdAt = now e\<rparr>]\<rparr>,
                trace = [UserFindOne name, UserCreate name]\<rparr>"
      unfolding o1_def
      using post_login_try [OF assms(1,2)]
        login_try_absent [OF assms(5,6) name(1) None, of s]
      by (simp add: name(2))
    moreover have "find (\<lambda>u. username u = name)
        (users st @ [\<lparr>user_id = new_id e, username = name, createdAt = now e\<rparr>])
        = Some \<lparr>user_id = new_id e, username = name, createdAt = now e\<rparr>"
      by (rule find_snoc [OF None]) simp
    ultimately show ?thesis using None by simp
  next
    case (Some u)
    have "o1 = \<lparr>resp = Redirect ''/home'',
                sess = s\<lparr>user := Some \<lparr>su_id = user_id u, su_username = name\<rparr>\<rparr>,
                db = st, trace = [UserFindOne name]\<rparr>"
      unfolding o1_def
      using post_login_try [OF assms(1,2)] login_try_found [OF assms(5) Some, of s]
      by (simp add: name(2))
    then show ?thesis using Some by simp
  qed
  then obtain u where u: "find (\<lambda>u. username u = name) (users (db o1)) = Some u"
    and o1: "o1 = \<lparr>resp = Redirect ''/home'',
                    sess = s\<lparr>user := Some \<lparr>su_id = user_id u, su_username = name\<rparr>\<rparr>,
                    db = db o1,
                    trace = (if find (\<lambda>u. username u = name) (users st) = None
                             then [UserFindOne name, UserCreate name]
                             else [UserFindOne name])\<rparr>"
    and db1: "db o1 = (if find (\<lambda>u. username u = name) (users st) = None
                       then st\<lparr>users := users st @
                              [\<lparr>user_id = new_id e, username = name, createdAt = now e\<rparr>]\<rparr>
                       else st)"
    by blast
  define o2 where "o2 = post_login e2 form2 (sess o1) (db o1)"
  have second: "o2 =
       \<lparr>resp = Redirect ''/home'',
        sess = (sess o1)\<lparr>user := Some \<lparr>su_id = user_id u, su_username = name\<rparr>\<rparr>,
        db = db o1, trace = [UserFindOne name]\<rparr>"
    unfolding o2_def
    using post_login_try [OF assms(3), of e2 "sess o1" "db o1"]
      login_try_found [OF assms(7) u, of "sess o1"]
    by (simp add: name)
  have s1: "sess o1 = s\<lparr>user := Some \<lparr>su_id = user_id u, su_username = name\<rparr>\<rparr>"
    by (subst o1) simp
  have r1: "resp o1 = Redirect ''/home''"
    by (subst o1) simp
  have t1: "trace o1 = (if find (\<lambda>u. username u = name) (users st) = None
                        then [UserFindOne name, UserCreate name] else [UserFindOne name])"
    by (subst o1) simp
  have d2: "db o2 = db o1"
    by (subst second) simp
  have s2: "sess o2 = s\<lparr>user := Some \<lparr>su_id = user_id u, su_username = name\<rparr>\<rparr>"
    by (subst second) (simp add: s1)
  have r2: "resp o2 = Redirect ''/home''"
    by (subst second) simp
  have ex: "\<exists>u. find (\<lambda>u. username u = name) (users (db o1)) = Some u \<and>
              sess o1 = s\<lparr>user := Some \<lparr>su_id = user_id u, su_username = name\<rparr>\<rparr> \<and>
              sess o2 = s\<lparr>user := Some \<lparr>su_id = user_id u, su_username = name\<rparr>\<rparr>"
    using u s1 s2 by blast
  show ?thesis
    unfolding o1_def [symmetric] o2_def [symmetric] name(2)
  proof (intro conjI impI)
    show "\<exists>u. find (\<lambda>u. username u = name) (users (db o1)) = Some u \<and>
              sess o1 = s\<lparr>user := Some \<lparr>su_id = user_id u, su_username = name\<rparr>\<rparr> \<and>
              sess o2 = s\<lparr>user := Some \<lparr>su_id = user_id u, su_username = name\<rparr>\<rparr>"
      by (rule ex)
  qed (simp_all add: db1 t1 d2 r1 r2)
qed

theorem login_idempotent_identity_witness:
  "db (post_login env0 [(''username'', JStr ''  alice '')] new_session store0) =
     \<lparr>users = [\<lparr>user_id = ''65a1'', username = ''alice'', createdAt = 1000\<rparr>], images = []\<rparr> \<and>
   db (post_login (env0\<lparr>new_id := ''65a2''\<rparr>) [(''username'', JStr ''alice'')]
        (sess (post_login env0 [(''username'', JStr ''  alice '')] new_session store0))
        (db (post_login env0 [(''username'', JStr ''  alice '')] new_session store0))) =
     \<lparr>users = [\<lparr>user_id = ''65a1'', username = ''alice'', createdAt = 1000\<rparr>], images = []\<rparr> \<and>
   resp (post_login env0 [(''username'', JStr ''  alice '')] new_session store0) =
     Redirect ''/home''"
proof -
  let ?form = "[(''username'', JStr ''  alice '')]"
  let ?e2 = "env0\<lparr>new_id := ''65a2''\<rparr>"
  have a: "field ?form ''username'' = JStr ''  alice ''"
    by (simp add: field_def)
  have b: "trim ''  alice '' \<noteq> []"
    by (simp add: trim_alice)
  have c: "field [(''username'', JStr ''alice'')] ''username'' = JStr ''alice''"
    by (simp add: field_def)
  have d: "trim ''alice'' = trim ''  alice ''"
    by (simp add: trim_alice trim_alice_plain)
  have e1: "userFindOne_err env0 = None" and e2: "userCreate_err env0 = None"
    and e3: "userFindOne_err ?e2 = None" and e4: "userCreate_err ?e2 = None"
    by (simp_all add: env0_def)
  have f: "find (\<lambda>u. username u = trim ''  alice '') (users store0) = None"
    by (simp add: store0_def)
  note th = login_idempotent_identity [OF a b c d e1 e2 e3 e4, of store0 new_session]
  from th f have 1: "db (post_login env0 ?form new_session store0) =
      store0\<lparr>users := users store0 @
        [\<lparr>user_id = new_id env0, username = trim ''  alice '', createdAt = now env0\<rparr>]\<rparr>"
    by blast
  from th have 2: "db (post_login ?e2 [(''username'', JStr ''alice'')]
        (sess (post_login env0 ?form new_session store0))
        (db (post_login env0 ?form new_session store0))) =
      db (post_login env0 ?form new_session store0)"
    by blast
  from th have 3: "resp (post_login env0 ?form new_session store0) = Redirect ''/home''"
    by blast
  have 4: "store0\<lparr>users := users store0 @
        [\<lparr>user_id = new_id env0, username = trim ''  alice '', createdAt = now env0\<rparr>]\<rparr> =
      \<lparr>users = [\<lparr>user_id = ''65a1'', username = ''alice'', createdAt = 1000\<rparr>], images = []\<rparr>"
    by (simp add: store0_def env0_def trim_alice)
  show ?thesis
    unfolding 2 3 unfolding 1 4 by simp
qed

lemma bob_logged_in: "user bob_session \<noteq> None"
  by (simp add: bob_session_def)

lemma bob_user: "user bob_session = Some bob"
  by (simp add: bob_session_def)

text \<open>
  C3. POST /login whose username field is absent, or a string that is empty after
  trimming (empty or white space only): the handler renders the login view with the
  message "Username is required." at status 200, makes no store call, and leaves the
  session and the store exactly as they were.
\<close>

theorem login_requires_username:
  assumes "field form ''username'' = JUndefined \<or>
           (\<exists>raw. field form ''username'' = JStr raw \<and> trim raw = [])"
  shows "post_login e form s st =
           \<lparr>resp = RenderLogin (Some ''Username is required.''), sess = s, db = st,
            trace = []\<rparr> \<and>
         status (resp (post_login e form s st)) = Some 200"
  by (simp add: post_login_def username_missing [OF assms])

theorem login_requires_username_witness:
  "trim ''   '' = [] \<and>
   post_login env0 [(''username'', JStr ''   '')] new_session store0 =
     \<lparr>resp = RenderLogin (Some ''Username is required.''), sess = new_session, db = store0,
      trace = []\<rparr> \<and>
   post_login env0 [] bob_session store1 =
     \<lparr>resp = RenderLogin (Some ''Username is required.''), sess = bob_session, db = store1,
      trace = []\<rparr>"
proof -
  have a: "field [(''username'', JStr ''   '')] ''username'' = JUndefined \<or>
           (\<exists>raw. field [(''username'', JStr ''   '')] ''username'' = JStr raw \<and> trim raw = [])"
    by (simp add: field_def trim_blank)
  have b: "field [] ''username'' = JUndefined \<or>
           (\<exists>raw. field [] ''username'' = JStr raw \<and> trim raw = [])"
    by (simp add: field_def)
  show ?thesis
    using login_requires_username [OF a, of env0 new_session store0]
      login_requires_username [OF b, of env0 bob_session store1]
    by (simp add: trim_blank)
qed

text \<open>
  C7 (as amended). POST /login with a username that is non-empty after trimming, on which
  the lookup or the create raises an error: the error is caught and logged, the login
  view is rendered with the generic message at status 200, and the session and the store
  are left exactly as they were before the request. No user is written into the session;
  a user that was already there stays.
\<close>

theorem login_store_error:
  assumes "field form ''username'' = JStr raw" and "trim raw \<noteq> []"
    and "userFindOne_err e = Some err \<or>
         (userFindOne_err e = None \<and>
          find (\<lambda>u. username u = trim raw) (users st) = None \<and>
          userCreate_err e = Some err)"
  shows "resp (post_login e form s st) =
           RenderLogin (Some ''Something went wrong. Try again.'') \<and>
         status (resp (post_login e form s st)) = Some 200 \<and>
         sess (post_login e form s st) = s \<and>
         db (post_login e form s st) = st \<and>
         last (trace (post_login e form s st)) = ConsoleError ''Error in /login:'' err"
proof -
  from login_try_throws [OF assms(3), of s] obtain tr
    where "login_try e (trim raw) s st = Inl (err, tr)" by blast
  from post_login_catch [OF assms(1,2) this] show ?thesis by simp
qed

theorem login_store_error_witness:
  "resp (post_login (env0\<lparr>userFindOne_err := Some (StoreError ''timeout'')\<rparr>)
           [(''username'', JStr ''alice'')] new_session store0) =
     RenderLogin (Some ''Something went wrong. Try again.'') \<and>
   sess (post_login (env0\<lparr>userFindOne_err := Some (StoreError ''timeout'')\<rparr>)
           [(''username'', JStr ''alice'')] new_session store0) = new_session"
proof -
  have a: "field [(''username'', JStr ''alice'')] ''username'' = JStr ''alice''"
    by (simp add: field_def)
  have b: "trim ''alice'' \<noteq> []"
    by (simp add: trim_alice_plain)
  show ?thesis
    using login_store_error [OF a b, of "env0\<lparr>userFindOne_err := Some (StoreError ''timeout'')\<rparr>"
        "StoreError ''timeout''" store0 new_session]
    by simp
qed

text \<open>
  The claim as first stated said that the session is left without a user. With bob
  already logged in and a failing lookup for alice, the session still holds bob.
\<close>

theorem login_store_error_keeps_user_counterexample:
  "field [(''username'', JStr ''alice'')] ''username'' = JStr ''alice'' \<and>
   trim ''alice'' = ''alice'' \<and>
   userFindOne_err (env0\<lparr>userFindOne_err := Some (StoreError ''timeout'')\<rparr>) =
     Some (StoreError ''timeout'') \<and>
   resp (post_login (env0\<lparr>userFindOne_err := Some (StoreError ''timeout'')\<rparr>)
           [(''username'', JStr ''alice'')] bob_session store1) =
     RenderLogin (Some ''Something went wrong. Try again.'') \<and>
   user (sess (post_login (env0\<lparr>userFindOne_err := Some (StoreError ''timeout'')\<rparr>)
           [(''username'', JStr ''alice'')] bob_session store1)) = Some bob \<and>
   user (sess (post_login (env0\<lparr>userFindOne_err := Some (StoreError ''timeout'')\<rparr>)
           [(''username'', JStr ''alice'')] bob_session store1)) \<noteq> None"
  by (simp add: post_login_def login_try_def User_findOne_def field_def js_or_def
      trim_alice_plain bob_session_def)

section \<open>Random image\<close>

lemma random_try_fails:
  assumes "fetched e = NetworkFailure \<or>
           (\<exists>code b. fetched e = Response code b \<and>
              (\<not> response_ok code \<or> b = NotJson \<or> b = Json JNull))"
  shows "\<exists>err. random_try e s st = Inl err"
  using assms by (auto simp: random_try_def)

lemma random_handler_catch:
  "random_try e s st = Inl err \<Longrightarrow>
   random_handler e s st =
     \<lparr>resp = RenderHome JNull (Some ''Could not load image. Please try again.''),
      sess = s, db = st,
      trace = [Fetch dog_api, ConsoleError ''Error fetching random image:'' err]\<rparr>"
  by (simp add: random_handler_def)
lemma get_random: "is_get \<lparr>meth = GET, path = ''/random'', body = []\<rparr>"
  "route_match ''/random'' (path \<lparr>meth = GET, path = ''/random'', body = []\<rparr>)"
  by (simp_all add: is_get_def) code_simp

text \<open>
  C4 (as amended). GET /random by a logged-in user on which the fetch rejects, or the
  status is outside 200-299, or the body is not JSON or is the JSON value \<open>null\<close>: the
  handler renders the home view with \<open>currentImage: null\<close> and the non-empty message
  "Could not load image. Please try again." at status 200; the session, and with it the
  stored image URL, and the store are unchanged.
\<close>

theorem random_upstream_failure:
  assumes "is_get req" and "route_match ''/random'' (path req)" and "user s \<noteq> None"
    and "fetched e = NetworkFailure \<or>
         (\<exists>code b. fetched e = Response code b \<and>
            (\<not> response_ok code \<or> b = NotJson \<or> b = Json JNull))"
  shows "resp (router e req s st) =
           RenderHome JNull (Some ''Could not load image. Please try again.'') \<and>
         ''Could not load image. Please try again.'' \<noteq> [] \<and>
         status (resp (router e req s st)) = Some 200 \<and>
         sess (router e req s st) = s \<and>
         currentImage (sess (router e req s st)) = currentImage s \<and>
         db (router e req s st) = st"
proof -
  from random_try_fails [OF assms(4), of s st] obtain err
    where "random_try e s st = Inl err" by blast
  from random_handler_catch [OF this] show ?thesis
    by (simp add: router_random [OF assms(1,2)] requireLogin_some [OF assms(3)])
qed

theorem random_upstream_failure_witness:
  "resp (router (env0\<lparr>fetched := NetworkFailure\<rparr>)
           \<lparr>meth = GET, path = ''/random'', body = []\<rparr> bob_session store1) =
     RenderHome JNull (Some ''Could not load image. Please try again.'') \<and>
   currentImage (sess (router (env0\<lparr>fetched := Response 503 (Json JNull)\<rparr>)
           \<lparr>meth = GET, path = ''/random'', body = []\<rparr> bob_session store1)) =
     JStr ''https://x/old.jpg'' \<and>
   sess (router (env0\<lparr>fetched := Response 200 NotJson\<rparr>)
           \<lparr>meth = GET, path = ''/random'', body = []\<rparr> bob_session store1) = bob_session \<and>
   sess (router (env0\<lparr>fetched := Response 204 (Json JNull)\<rparr>)
           \<lparr>meth = GET, path = ''/random'', body = []\<rparr> bob_session store1) = bob_session"
  using random_upstream_failure [OF get_random bob_logged_in,
      of "env0\<lparr>fetched := NetworkFailure\<rparr>" store1]
    random_upstream_failure [OF get_random bob_logged_in,
      of "env0\<lparr>fetched := Response 503 (Json JNull)\<rparr>" store1]
    random_upstream_failure [OF get_random bob_logged_in,
      of "env0\<lparr>fetched := Response 200 NotJson\<rparr>" store1]
    random_upstream_failure [OF get_random bob_logged_in,
      of "env0\<lparr>fetched := Response 204 (Json JNull)\<rparr>" store1]
  by (simp add: response_ok_def bob_session_def)

text \<open>
  The claim as first stated covered every malformed body. The body \<open>{}\<close> is JSON
  without the image URL the handler expects, yet with status 200 the handler takes the
  success branch: no error message, and the session's stored image URL is overwritten
  with \<open>undefined\<close>.
\<close>

theorem random_fieldless_body_counterexample:
  "response_ok 200 \<and>
   user bob_session = Some bob \<and>
   js_get (JObj []) ''message'' = Inr JUndefined \<and>
   resp (router (env0\<lparr>fetched := Response 200 (Json (JObj []))\<rparr>)
           \<lparr>meth = GET, path = ''/random'', body = []\<rparr> bob_session store1) =
     RenderHome JUndefined None \<and>
   currentImage bob_session = JStr ''https://x/old.jpg'' \<and>
   currentImage (sess (router (env0\<lparr>fetched := Response 200 (Json (JObj []))\<rparr>)
           \<lparr>meth = GET, path = ''/random'', body = []\<rparr> bob_session store1)) = JUndefined \<and>
   currentImage (sess (router (env0\<lparr>fetched := Response 200 (Json (JObj []))\<rparr>)
           \<lparr>meth = GET, path = ''/random'', body = []\<rparr> bob_session store1))
     \<noteq> currentImage bob_session"
  by (simp add: router_random [OF get_random] requireLogin_some [OF bob_logged_in]
      random_handler_def random_try_def response_ok_def field_def)
    (simp add: bob_session_def)

lemma js_get_lacking:
  assumes "data \<noteq> JNull" and "data \<noteq> JUndefined"
    and "\<forall>kvs. data = JObj kvs \<longrightarrow> map_of kvs ''message'' = None"
  shows "js_get data ''message'' = Inr JUndefined"
  using assms by (cases data) (simp_all add: field_def)

text \<open>
  C10 (as amended). GET /random by a logged-in user on which the upstream answers with a
  success status and a body that parses as JSON to a value other than \<open>null\<close> and
  without a \<open>message\<close> field: the handler takes the success branch, stores
  \<open>undefined\<close> as the session's image URL and renders the home view with that value
  and without an error message, at status 200.
\<close>

theorem random_missing_field:
  assumes "is_get req" and "route_match ''/random'' (path req)" and "user s \<noteq> None"
    and "fetched e = Response code (Json data)" and "response_ok code"
    and "data \<noteq> JNull" and "data \<noteq> JUndefined"
    and "\<forall>kvs. data = JObj kvs \<longrightarrow> map_of kvs ''message'' = None"
  shows "router e req s st =
           \<lparr>resp = RenderHome JUndefined None, sess = s\<lparr>currentImage := JUndefined\<rparr>,
            db = st, trace = [Fetch dog_api]\<rparr> \<and>
         status (resp (router e req s st)) = Some 200"
  using assms(4,5) js_get_lacking [OF assms(6,7,8)]
  by (simp add: router_random [OF assms(1,2)] requireLogin_some [OF assms(3)]
      random_handler_def random_try_def)

theorem random_missing_field_witness:
  "response_ok 200 \<and>
   router (env0\<lparr>fetched := Response 200 (Json (JObj [(''status'', JStr ''error'')]))\<rparr>)
       \<lparr>meth = GET, path = ''/random'', body = []\<rparr> bob_session store1 =
     \<lparr>resp = RenderHome JUndefined None, sess = bob_session\<lparr>currentImage := JUndefined\<rparr>,
      db = store1, trace = [Fetch dog_api]\<rparr>"
proof -
  let ?e = "env0\<lparr>fetched := Response 200 (Json (JObj [(''status'', JStr ''error'')]))\<rparr>"
  have a: "fetched ?e = Response 200 (Json (JObj [(''status'', JStr ''error'')]))"
    by simp
  have b: "response_ok 200"
    by (simp add: response_ok_def)
  have c: "\<forall>kvs. JObj [(''status'', JStr ''error'')] = JObj kvs \<longrightarrow>
             map_of kvs ''message'' = None"
    by simp
  show ?thesis
    using random_missing_field [OF get_random bob_logged_in a b _ _ c, of store1] b
    by simp
qed

text \<open>
  The claim as first stated covered every JSON body without the field. The body
  \<open>null\<close> parses as JSON and has no field, but reading \<open>data.message\<close> throws, and the
  handler takes the failure branch: error message, session image URL unchanged.
\<close>

theorem random_null_body_counterexample:
  "response_ok 200 \<and>
   user bob_session = Some bob \<and>
   router (env0\<lparr>fetched := Response 200 (Json JNull)\<rparr>)
       \<lparr>meth = GET, path = ''/random'', body = []\<rparr> bob_session store1 =
     \<lparr>resp = RenderHome JNull (Some ''Could not load image. Please try again.''),
      sess = bob_session, db = store1,
      trace = [Fetch dog_api, ConsoleError ''Error fetching random image:''
                 (TypeError ''Cannot read properties of null'')]\<rparr> \<and>
   currentImage (sess (router (env0\<lparr>fetched := Response 200 (Json JNull)\<rparr>)
       \<lparr>meth = GET, path = ''/random'', body = []\<rparr> bob_session store1)) \<noteq> JUndefined"
  by (simp add: router_random [OF get_random] requireLogin_some [OF bob_logged_in]
      random_handler_def random_try_def response_ok_def)
    (simp add: bob_session_def)

section \<open>Saved images\<close>

lemma sorted_desc:
  "sorted (map (\<lambda>d. - savedAt d) xs) = sorted_wrt (\<lambda>a b. savedAt b \<le> savedAt a) xs"
  by (simp add: sorted_map)

lemma three_desc:
  fixes xs :: "image_doc list"
  assumes m: "mset xs = {#d1, d2, d3#}"
    and lt: "savedAt d1 < savedAt d2" "savedAt d2 < savedAt d3"
  shows "sort_key (\<lambda>d. - savedAt d) xs = [d3, d2, d1]"
proof (rule properties_for_sort_key)
  show "mset [d3, d2, d1] = mset xs"
    using m by (simp add: add_mset_commute)
  show "sorted (map (\<lambda>d. - savedAt d) [d3, d2, d1])"
    using lt by simp
  fix k assume "k \<in> set [d3, d2, d1]"
  have one: "mset ys = {#a#} \<Longrightarrow> ys = [a]" for ys :: "image_doc list" and a
    by (metis mset.simps(1) mset.simps(2) mset_eq_setD mset_single_iff_right)
  from \<open>k \<in> set [d3, d2, d1]\<close> consider "k = d1" | "k = d2" | "k = d3" by auto
  then show "[x\<leftarrow>[d3, d2, d1] . - savedAt k = - savedAt x] = [x\<leftarrow>xs . - savedAt k = - savedAt x]"
  proof cases
    case 1
    have "mset [x\<leftarrow>xs . - savedAt k = - savedAt x] = {#d1#}"
      using lt 1 by (simp add: m)
    from one [OF this] show ?thesis using lt 1 by simp
  next
    case 2
    have "mset [x\<leftarrow>xs . - savedAt k = - savedAt x] = {#d2#}"
      using lt 2 by (simp add: m)
    from one [OF this] show ?thesis using lt 2 by simp
  next
    case 3
    have "mset [x\<leftarrow>xs . - savedAt k = - savedAt x] = {#d3#}"
      using lt 3 by (simp add: m)
    from one [OF this] show ?thesis using lt 3 by simp
  qed
qed

lemma get_saved: "is_get \<lparr>meth = GET, path = ''/saved'', body = []\<rparr>"
  "route_match ''/saved'' (path \<lparr>meth = GET, path = ''/saved'', body = []\<rparr>)"
  by (simp_all add: is_get_def match_saved)

text \<open>
  C5. GET /saved by a logged-in user makes one query, for the records whose owner is the
  session user's id, and renders exactly those records (as a multiset), ordered by save
  time descending; three saves at times t1 < t2 < t3 are listed as [t3, t2, t1]. When
  the query fails the handler renders the empty list, still at status 200. Session and
  store are unchanged.
\<close>

theorem saved_listing:
  assumes "is_get req" and "route_match ''/saved'' (path req)" and "user s = Some u"
  shows "(imageFind_err e = None \<longrightarrow>
            (\<exists>imgs. resp (router e req s st) = RenderSaved imgs \<and>
               mset imgs = mset (filter (\<lambda>d. image_user d = su_id u) (images st)) \<and>
               sorted_wrt (\<lambda>a b. savedAt b \<le> savedAt a) imgs \<and>
               (\<forall>d1 d2 d3. mset (filter (\<lambda>d. image_user d = su_id u) (images st))
                                = {#d1, d2, d3#} \<and>
                             savedAt d1 < savedAt d2 \<and> savedAt d2 < savedAt d3
                             \<longrightarrow> imgs = [d3, d2, d1])) \<and>
            trace (router e req s st) = [ImageFind (su_id u)]) \<and>
         (imageFind_err e \<noteq> None \<longrightarrow> resp (router e req s st) = RenderSaved []) \<and>
         status (resp (router e req s st)) = Some 200 \<and>
         sess (router e req s st) = s \<and> db (router e req s st) = st"
proof -
  have li: "user s \<noteq> None" using assms(3) by simp
  have r: "router e req s st = saved_handler e s st"
    by (simp add: router_saved [OF assms(1,2)] requireLogin_some [OF li])
  show ?thesis
  proof (cases "imageFind_err e")
    case None
    let ?imgs = "sort_key (\<lambda>d. - savedAt d)
                   (filter (\<lambda>d. image_user d = su_id u) (images st))"
    have h: "saved_handler e s st =
               \<lparr>resp = RenderSaved ?imgs, sess = s, db = st, trace = [ImageFind (su_id u)]\<rparr>"
      using None assms(3) by (simp add: saved_handler_def Image_find_sorted_def)
    have "sorted_wrt (\<lambda>a b. savedAt b \<le> savedAt a) ?imgs"
      by (simp add: sorted_desc [symmetric])
    moreover have "mset ?imgs = mset (filter (\<lambda>d. image_user d = su_id u) (images st))"
      by simp
    moreover have "\<forall>d1 d2 d3. mset (filter (\<lambda>d. image_user d = su_id u) (images st))
                                = {#d1, d2, d3#} \<and>
                             savedAt d1 < savedAt d2 \<and> savedAt d2 < savedAt d3
                             \<longrightarrow> ?imgs = [d3, d2, d1]"
      using three_desc by blast
    ultimately show ?thesis
      using None by (simp add: r h)
  next
    case (Some err)
    have "saved_handler e s st =
            \<lparr>resp = RenderSaved [], sess = s, db = st,
             trace = [ImageFind (su_id u), ConsoleError ''Error loading saved images:'' err]\<rparr>"
      using Some assms(3) by (simp add: saved_handler_def Image_find_sorted_def)
    then show ?thesis
      using Some by (simp add: r)
  qed
qed
theorem saved_listing_witness:
  "resp (router env0 \<lparr>meth = GET, path = ''/saved'', body = []\<rparr> bob_session store1) =
     RenderSaved [pic ''65b0'' ''u3'' 30, pic ''65b0'' ''u2'' 20, pic ''65b0'' ''u1'' 10] \<and>
   resp (router (env0\<lparr>imageFind_err := Some (StoreError ''timeout'')\<rparr>)
           \<lparr>meth = GET, path = ''/saved'', body = []\<rparr> bob_session store1) = RenderSaved []"
proof -
  have m: "mset (filter (\<lambda>d. image_user d = su_id bob) (images store1)) =
             {#pic ''65b0'' ''u1'' 10, pic ''65b0'' ''u2'' 20, pic ''65b0'' ''u3'' 30#}"
    by (simp add: store1_def bob_def pic_def)
  have t: "savedAt (pic ''65b0'' ''u1'' 10) < savedAt (pic ''65b0'' ''u2'' 20)"
    "savedAt (pic ''65b0'' ''u2'' 20) < savedAt (pic ''65b0'' ''u3'' 30)"
    by (simp_all add: pic_def)
  have a: "imageFind_err env0 = None"
    by (simp add: env0_def)
  from saved_listing [OF get_saved bob_user, of env0 store1] a m t
  have 1: "resp (router env0 \<lparr>meth = GET, path = ''/saved'', body = []\<rparr> bob_session store1) =
     RenderSaved [pic ''65b0'' ''u3'' 30, pic ''65b0'' ''u2'' 20, pic ''65b0'' ''u1'' 10]"
    by (metis (no_types, lifting))
  from saved_listing [OF get_saved bob_user,
      of "env0\<lparr>imageFind_err := Some (StoreError ''timeout'')\<rparr>" store1]
  have 2: "resp (router (env0\<lparr>imageFind_err := Some (StoreError ''timeout'')\<rparr>)
           \<lparr>meth = GET, path = ''/saved'', body = []\<rparr> bob_session store1) = RenderSaved []"
    by simp
  show ?thesis using 1 2 by simp
qed

section \<open>Saving an image\<close>

lemma post_save: "meth \<lparr>meth = POST, path = ''/save'', body = form\<rparr> = POST"
  "route_match ''/save'' (path \<lparr>meth = POST, path = ''/save'', body = form\<rparr>)"
  by (simp_all add: match_save)

text \<open>
  C6. POST /save with the \<open>imageUrl\<close> field absent or empty and no image URL in the
  session (nothing truthy stored there): the handler makes no store call, leaves the
  store and the session unchanged, and redirects (302) to /home; for a logged-in user
  that is the answer of the route.
\<close>

theorem save_without_url:
  assumes "field form ''imageUrl'' = JUndefined \<or> field form ''imageUrl'' = JStr []"
    and "\<not> truthy (currentImage s)"
  shows "save_handler e form s st =
           \<lparr>resp = Redirect ''/home'', sess = s, db = st, trace = []\<rparr> \<and>
         status (resp (save_handler e form s st)) = Some 302 \<and>
         (meth req = POST \<and> route_match ''/save'' (path req) \<and> body req = form \<and>
          user s \<noteq> None \<longrightarrow>
            router e req s st =
              \<lparr>resp = Redirect ''/home'', sess = s, db = st, trace = []\<rparr>)"
proof -
  have h: "save_handler e form s st =
             \<lparr>resp = Redirect ''/home'', sess = s, db = st, trace = []\<rparr>"
    using assms by (auto simp: save_handler_def js_or_def)
  have "router e req s st = \<lparr>resp = Redirect ''/home'', sess = s, db = st, trace = []\<rparr>"
    if "meth req = POST" "route_match ''/save'' (path req)" "body req = form" "user s \<noteq> None"
    using that h by (simp add: router_save requireLogin_some)
  then show ?thesis
    by (simp add: h)
qed

theorem save_without_url_witness:
  "router env0 \<lparr>meth = POST, path = ''/save'', body = []\<rparr>
     \<lparr>user = Some bob, currentImage = JUndefined\<rparr> store1 =
     \<lparr>resp = Redirect ''/home'', sess = \<lparr>user = Some bob, currentImage = JUndefined\<rparr>,
      db = store1, trace = []\<rparr> \<and>
   db (save_handler env0 [(''imageUrl'', JStr [])]
     \<lparr>user = Some bob, currentImage = JUndefined\<rparr> store1) = store1"
  using save_without_url [of "[]" "\<lparr>user = Some bob, currentImage = JUndefined\<rparr>"
      env0 store1 "\<lparr>meth = POST, path = ''/save'', body = []\<rparr>"]
    save_without_url [of "[(''imageUrl'', JStr [])]"
      "\<lparr>user = Some bob, currentImage = JUndefined\<rparr>" env0 store1]
  by (simp add: field_def match_save)

lemma form_value_truthy:
  "is_form_value v \<Longrightarrow> truthy v = (v \<noteq> JUndefined \<and> v \<noteq> JStr [])"
  by (cases v) simp_all

lemma Image_create_string:
  assumes "imageCreate_err e = None" and "url \<noteq> []"
  shows "Image_create e st uid (JStr url) =
           Inr (st\<lparr>images := images st @
                  [\<lparr>image_id = new_id e, image_user = uid, imageUrl = url,
                    savedAt = now e\<rparr>]\<rparr>)"
  using assms by (simp add: Image_create_def castString_def)

text \<open>
  C9. POST /save by a logged-in user neither trims nor validates the submitted URL:
  a field that is a non-empty string, white space only included, is passed as it is to
  \<open>Image.create\<close>, and when the store accepts the write the new record's \<open>imageUrl\<close> is
  that very string. The value passed is the field itself whenever the field is neither
  absent nor the empty string; the session's last-fetched URL is passed only when the
  field is absent or the empty string.
\<close>

theorem save_url_verbatim:
  assumes "meth req = POST" and "route_match ''/save'' (path req)" and "user s = Some u"
    and "is_form_value (field (body req) ''imageUrl'')"
  shows "(\<forall>url. field (body req) ''imageUrl'' = JStr url \<and> url \<noteq> [] \<and> imageCreate_err e = None
            \<longrightarrow> router e req s st =
                  \<lparr>resp = Redirect ''/saved'', sess = s,
                   db = st\<lparr>images := images st @
                          [\<lparr>image_id = new_id e, image_user = su_id u, imageUrl = url,
                            savedAt = now e\<rparr>]\<rparr>,
                   trace = [ImageCreate (su_id u) (JStr url)]\<rparr>) \<and>
         (field (body req) ''imageUrl'' \<noteq> JUndefined \<and> field (body req) ''imageUrl'' \<noteq> JStr []
            \<longrightarrow> hd (trace (router e req s st)) =
                  ImageCreate (su_id u) (field (body req) ''imageUrl'')) \<and>
         ((field (body req) ''imageUrl'' = JUndefined \<or> field (body req) ''imageUrl'' = JStr [])
            \<and> truthy (currentImage s)
            \<longrightarrow> hd (trace (router e req s st)) = ImageCreate (su_id u) (currentImage s))"
proof -
  have li: "user s \<noteq> None" using assms(3) by simp
  have r: "router e req s st = save_handler e (body req) s st"
    by (simp add: router_save [OF assms(1,2)] requireLogin_some [OF li])
  have created: "truthy v \<Longrightarrow> js_or (field (body req) ''imageUrl'') (currentImage s) = v \<Longrightarrow>
      hd (trace (save_handler e (body req) s st)) = ImageCreate (su_id u) v" for v
    using assms(3) by (simp add: save_handler_def split: sum.split)
  show ?thesis
  proof (intro conjI impI allI)
    fix url
    assume "field (body req) ''imageUrl'' = JStr url \<and> url \<noteq> [] \<and> imageCreate_err e = None"
    then show "router e req s st =
                  \<lparr>resp = Redirect ''/saved'', sess = s,
                   db = st\<lparr>images := images st @
                          [\<lparr>image_id = new_id e, image_user = su_id u, imageUrl = url,
                            savedAt = now e\<rparr>]\<rparr>,
                   trace = [ImageCreate (su_id u) (JStr url)]\<rparr>"
      using assms(3) by (simp add: r save_handler_def js_or_def Image_create_string)
  next
    assume "field (body req) ''imageUrl'' \<noteq> JUndefined \<and> field (body req) ''imageUrl'' \<noteq> JStr []"
    then have t: "truthy (field (body req) ''imageUrl'')"
      by (simp add: form_value_truthy [OF assms(4)])
    then have "js_or (field (body req) ''imageUrl'') (currentImage s) = field (body req) ''imageUrl''"
      by (simp add: js_or_def)
    from created [OF t this]
    show "hd (trace (router e req s st)) = ImageCreate (su_id u) (field (body req) ''imageUrl'')"
      by (simp add: r)
  next
    assume a: "(field (body req) ''imageUrl'' = JUndefined \<or> field (body req) ''imageUrl'' = JStr [])
               \<and> truthy (currentImage s)"
    then have "js_or (field (body req) ''imageUrl'') (currentImage s) = currentImage s"
      by (auto simp: js_or_def)
    from created [OF _ this] a
    show "hd (trace (router e req s st)) = ImageCreate (su_id u) (currentImage s)"
      by (simp add: r)
  qed
qed

theorem save_url_verbatim_witness:
  "router env0 \<lparr>meth = POST, path = ''/save'', body = [(''imageUrl'', JStr ''  '')]\<rparr>
     bob_session store0 =
     \<lparr>resp = Redirect ''/saved'', sess = bob_session,
      db = \<lparr>users = [], images = [\<lparr>image_id = ''65a1'', image_user = ''65b0'',
                                   imageUrl = ''  '', savedAt = 1000\<rparr>]\<rparr>,
      trace = [ImageCreate ''65b0'' (JStr ''  '')]\<rparr> \<and>
   hd (trace (router env0 \<lparr>meth = POST, path = ''/save'', body = [(''imageUrl'', JStr [])]\<rparr>
     bob_session store0)) = ImageCreate ''65b0'' (JStr ''https://x/old.jpg'')"
proof -
  have f1: "is_form_value (field (body \<lparr>meth = POST, path = ''/save'',
              body = [(''imageUrl'', JStr ''  '')]\<rparr>) ''imageUrl'')"
    by (simp add: field_def)
  have f2: "is_form_value (field (body \<lparr>meth = POST, path = ''/save'',
              body = [(''imageUrl'', JStr [])]\<rparr>) ''imageUrl'')"
    by (simp add: field_def)
  have 1: "router env0 \<lparr>meth = POST, path = ''/save'', body = [(''imageUrl'', JStr ''  '')]\<rparr>
     bob_session store0 =
     \<lparr>resp = Redirect ''/saved'', sess = bob_session,
      db = store0\<lparr>images := images store0 @
             [\<lparr>image_id = new_id env0, image_user = su_id bob, imageUrl = ''  '',
               savedAt = now env0\<rparr>]\<rparr>,
      trace = [ImageCreate (su_id bob) (JStr ''  '')]\<rparr>"
    using save_url_verbatim [OF post_save bob_user f1, of env0 store0]
    by (simp add: field_def env0_def)
  have 2: "hd (trace (router env0
      \<lparr>meth = POST, path = ''/save'', body = [(''imageUrl'', JStr [])]\<rparr>
      bob_session store0)) = ImageCreate (su_id bob) (currentImage bob_session)"
    using save_url_verbatim [OF post_save bob_user f2, of env0 store0]
    by (simp add: field_def bob_session_def)
  show ?thesis
    unfolding 1 2 by (simp add: store0_def env0_def bob_def bob_session_def)
qed

section \<open>The stop command\<close>

lemma cmd_stop: "toLowerCase (trim ''  StOp '') = ''stop''"
  by code_simp

lemma cmd_other: "toLowerCase (trim '' Quit'') = ''quit''"
  by code_simp

lemma cmd_blank: "toLowerCase (trim ''   '') = []"
  by code_simp

lemma cmd_empty: "toLowerCase (trim []) = []"
  by code_simp

lemma stop_callback_refused:
  "toLowerCase (trim line) = ''stop'' \<Longrightarrow>
   on_line RefusesCallback line p =
     p\<lparr>rl_open := False, listening := False, exit_code := Some 1,
       events := events p @
         [ConsoleLog ''Shutting down the server'', ReadlineClosed, ListenerClosed,
          UnhandledRejection ''Connection.prototype.close() no longer accepts a callback'',
          Exited 1]\<rparr>"
  by (simp add: on_line_def Let_def server_close_def connection_close_def rl_close_def
      console_log_def)

text \<open>
  C8 (as amended). With \<open>cmd\<close> the input line trimmed and lower-cased: when \<open>cmd\<close> is
  "stop" and the Mongoose in use calls the callback given to \<open>connection.close\<close>, the
  readline interface is closed, then the listener is closed, then the store connection is
  closed, then the process exits with code 0, in this order and the exit last; whatever
  the Mongoose, when \<open>cmd\<close> is anything else and not empty, "Invalid command: cmd" is
  printed, the prompt is shown again, and listener, connection and process stay as they
  are; when \<open>cmd\<close> is empty (an empty line or one of white space only) only the prompt
  is shown again.
\<close>

theorem stop_command:
  "(toLowerCase (trim line) = ''stop'' \<and> lib = CallsBack \<longrightarrow>
      on_line lib line p =
        p\<lparr>rl_open := False, listening := False, db_connected := False, exit_code := Some 0,
          events := events p @
            [ConsoleLog ''Shutting down the server'', ReadlineClosed, ListenerClosed,
             ConnectionClosed False, Exited 0]\<rparr>) \<and>
   (toLowerCase (trim line) \<noteq> ''stop'' \<and> toLowerCase (trim line) \<noteq> [] \<longrightarrow>
      on_line lib line p =
        p\<lparr>events := events p @
            [ConsoleLog (''Invalid command: '' @ toLowerCase (trim line)), Prompted]\<rparr>) \<and>
   (toLowerCase (trim line) = [] \<longrightarrow>
      on_line lib line p = p\<lparr>events := events p @ [Prompted]\<rparr>)"
  by (simp add: on_line_def Let_def server_close_def connection_close_def process_exit_def
      rl_close_def rl_prompt_def console_log_def)

theorem stop_command_witness:
  "on_line CallsBack ''  StOp '' running =
     \<lparr>rl_open = False, listening = False, db_connected = False, exit_code = Some 0,
      events = [Prompted, ConsoleLog ''Shutting down the server'', ReadlineClosed,
                ListenerClosed, ConnectionClosed False, Exited 0]\<rparr> \<and>
   on_line RefusesCallback '' Quit'' running =
     \<lparr>rl_open = True, listening = True, db_connected = True, exit_code = None,
      events = [Prompted, ConsoleLog ''Invalid command: quit'', Prompted]\<rparr> \<and>
   on_line CallsBack [] running =
     \<lparr>rl_open = True, listening = True, db_connected = True, exit_code = None,
      events = [Prompted, Prompted]\<rparr>"
  using stop_command [of "''  StOp ''" CallsBack running]
    stop_command [of "'' Quit''" RefusesCallback running]
    stop_command [of "[]" CallsBack running]
  by (simp add: cmd_stop cmd_other cmd_empty running_def)

text \<open>
  The claim as first stated has every non-empty line other than stop reported as
  invalid. A line of three spaces is not empty and is not the stop command, yet it is
  answered with the prompt alone, whatever the Mongoose.
\<close>

theorem blank_line_not_reported_counterexample:
  "''   '' \<noteq> [] \<and>
   toLowerCase (trim ''   '') \<noteq> ''stop'' \<and>
   on_line CallsBack ''   '' running =
     \<lparr>rl_open = True, listening = True, db_connected = True, exit_code = None,
      events = [Prompted, Prompted]\<rparr> \<and>
   on_line RefusesCallback ''   '' running =
     \<lparr>rl_open = True, listening = True, db_connected = True, exit_code = None,
      events = [Prompted, Prompted]\<rparr> \<and>
   ConsoleLog (''Invalid command: '' @ toLowerCase (trim ''   ''))
     \<notin> set (events (on_line CallsBack ''   '' running))"
  by (simp add: on_line_def Let_def cmd_blank rl_prompt_def running_def)

end
